theory Spec2Isabelle
  imports Complex_Main "HOL-Library.List_Lexorder" "HOL-Library.AList"
begin

section \<open>Python values used by the analyzer\<close>

text \<open>
  A Python \<open>str\<close> is modelled as a \<open>string\<close>, one \<open>char\<close> per code point, for the code
  points below 256. On these code points the regular-expression class \<open>\d\<close> and the
  class \<open>[0-9]\<close> are the same ten characters, and \<open>\s\<close>, \<open>str.strip()\<close> and the
  whitespace that \<open>int()\<close> skips are the same twelve characters (\<open>str.isspace\<close>).
  Python integers are unbounded and modelled as \<open>int\<close>; the limit that an interpreter
  may set on the number of digits \<open>int()\<close> converts is not modelled.
\<close>

datatype py_error = ValueError | IndexError | KeyError

definition is_digit :: "char \<Rightarrow> bool" where
  "is_digit c = (c \<in> set ''0123456789'')"

definition is_space :: "char \<Rightarrow> bool" where
  "is_space c = (c \<in> set [CHR 0x09, CHR 0x0A, CHR 0x0B, CHR 0x0C, CHR 0x0D,
                           CHR 0x1C, CHR 0x1D, CHR 0x1E, CHR 0x1F, CHR 0x20,
                           CHR 0x85, CHR 0xA0])"

text \<open>The character class \<open>[0-9a-zA-Z._-]\<close> of the version patterns.\<close>

definition is_vchar :: "char \<Rightarrow> bool" where
  "is_vchar c = (c \<in> set (''0123456789'' @ ''abcdefghijklmnopqrstuvwxyz'' @
                            ''ABCDEFGHIJKLMNOPQRSTUVWXYZ'' @ ''._-''))"

definition digit_val :: "char \<Rightarrow> int" where
  "digit_val c = int (of_char c) - 48"

text \<open>\<open>s.strip()\<close>: leading and trailing whitespace removed.\<close>

definition py_strip :: "string \<Rightarrow> string" where
  "py_strip s = rev (dropWhile is_space (rev (dropWhile is_space s)))"

text \<open>\<open>s.split(sep)\<close> for a one-character separator: always at least one field.\<close>

fun split_on :: "char \<Rightarrow> string \<Rightarrow> string list" where
  "split_on sep [] = [[]]"
| "split_on sep (c # cs) =
     (if c = sep then [] # split_on sep cs
      else (case split_on sep cs of
              [] \<Rightarrow> [[c]]
            | p # ps \<Rightarrow> (c # p) # ps))"

text \<open>\<open>xs[0]\<close> raises IndexError on an empty list.\<close>

definition py_first :: "'a list \<Rightarrow> py_error + 'a" where
  "py_first xs = (case xs of [] \<Rightarrow> Inl IndexError | x # _ \<Rightarrow> Inr x)"

text \<open>
  \<open>int(s)\<close> in base ten: surrounding whitespace is skipped, one sign is allowed, and the
  digits may be grouped by single underscores; anything else raises ValueError.
\<close>

fun int_digits :: "int \<Rightarrow> string \<Rightarrow> py_error + int" where
  "int_digits acc [] = Inr acc"
| "int_digits acc (c # cs) =
     (if is_digit c then int_digits (10 * acc + digit_val c) cs
      else if c = CHR ''_'' then
        (case cs of
           [] \<Rightarrow> Inl ValueError
         | d # ds \<Rightarrow> if is_digit d then int_digits (10 * acc + digit_val d) ds
                     else Inl ValueError)
      else Inl ValueError)"

definition int_literal :: "string \<Rightarrow> py_error + int" where
  "int_literal s =
     (case s of
        [] \<Rightarrow> Inl ValueError
      | c # cs \<Rightarrow> if is_digit c then int_digits (digit_val c) cs else Inl ValueError)"

definition py_int :: "string \<Rightarrow> py_error + int" where
  "py_int s =
     (case py_strip s of
        [] \<Rightarrow> Inl ValueError
      | c # r \<Rightarrow>
          if c = CHR ''-'' then map_sum id uminus (int_literal r)
          else if c = CHR ''+'' then int_literal r
          else int_literal (c # r))"

text \<open>\<open>tuple(f(p) for p in parts)\<close>: the first exception ends the construction.\<close>

fun traverse :: "('a \<Rightarrow> py_error + 'b) \<Rightarrow> 'a list \<Rightarrow> py_error + 'b list" where
  "traverse f [] = Inr []"
| "traverse f (x # xs) =
     (case f x of
        Inl e \<Rightarrow> Inl e
      | Inr y \<Rightarrow> (case traverse f xs of Inl e \<Rightarrow> Inl e | Inr ys \<Rightarrow> Inr (y # ys)))"

text \<open>
  Comparison of tuples of integers as Python does it: the first position where the two
  tuples differ decides; when there is none, the lengths are compared (after a common
  prefix the lengths of the two rests compare as the lengths of the two tuples do).
\<close>

datatype cmp_op = Lt | Le | Gt | Ge

fun cmp_int :: "cmp_op \<Rightarrow> int \<Rightarrow> int \<Rightarrow> bool" where
  "cmp_int Lt a b = (a < b)"
| "cmp_int Le a b = (a \<le> b)"
| "cmp_int Gt a b = (a > b)"
| "cmp_int Ge a b = (a \<ge> b)"

fun tuple_compare :: "cmp_op \<Rightarrow> int list \<Rightarrow> int list \<Rightarrow> bool" where
  "tuple_compare opr (x # xs) (y # ys) =
     (if x = y then tuple_compare opr xs ys else cmp_int opr x y)"
| "tuple_compare opr xs ys = cmp_int opr (int (length xs)) (int (length ys))"

section \<open>Regular expressions of the analyzer\<close>

text \<open>
  A compiled pattern is modelled by its matcher at the start of a text, returning group 1.
  \<open>pattern.search\<close> tries the start positions from left to right. In every pattern below
  a greedy piece is followed by a piece that cannot begin with a character the greedy
  piece accepts, so backtracking never finds a match that the greedy scan misses.
\<close>

type_synonym pattern = "string \<Rightarrow> string option"

fun strip_prefix :: "string \<Rightarrow> string \<Rightarrow> string option" where
  "strip_prefix [] s = Some s"
| "strip_prefix (p # ps) [] = None"
| "strip_prefix (p # ps) (c # cs) = (if p = c then strip_prefix ps cs else None)"

fun re_search :: "pattern \<Rightarrow> string \<Rightarrow> string option" where
  "re_search pat [] = pat []"
| "re_search pat (c # cs) =
     (case pat (c # cs) of Some g \<Rightarrow> Some g | None \<Rightarrow> re_search pat cs)"

text \<open>The shape \<open>OP\s*([0-9][0-9a-zA-Z._-]*)\<close>.\<close>

definition version_pattern :: "string \<Rightarrow> pattern" where
  "version_pattern opr s =
     (case strip_prefix opr s of
        None \<Rightarrow> None
      | Some r \<Rightarrow>
          (case dropWhile is_space r of
             [] \<Rightarrow> None
           | c # t \<Rightarrow> if is_digit c then Some (c # takeWhile is_vchar t) else None))"

definition RE_VERSION_GE :: pattern where
  "RE_VERSION_GE = version_pattern ''>=''"

definition RE_VERSION_EQ :: pattern where
  "RE_VERSION_EQ = version_pattern ''==''"

definition RE_VERSION_COMPAT :: pattern where
  "RE_VERSION_COMPAT = version_pattern ''~=''"

text \<open>
  \<open>^([0-9][0-9a-zA-Z._-]*)$\<close>, used with \<open>match\<close>: \<open>$\<close> holds at the end of the text and
  before a final newline.
\<close>

definition RE_VERSION_BARE :: pattern where
  "RE_VERSION_BARE s =
     (case s of
        [] \<Rightarrow> None
      | c # t \<Rightarrow>
          if is_digit c \<and> (dropWhile is_vchar t = [] \<or> dropWhile is_vchar t = [CHR 0x0A])
          then Some (c # takeWhile is_vchar t) else None)"

text \<open>\<open>_RE_NUMERIC_PARTS.findall\<close>: the maximal runs of digits, from left to right.\<close>

function findall_digits :: "string \<Rightarrow> string list" where
  "findall_digits [] = []"
| "findall_digits (c # cs) =
     (if is_digit c then (c # takeWhile is_digit cs) # findall_digits (dropWhile is_digit cs)
      else findall_digits cs)"
  by pat_completeness auto
termination
  by (relation "measure length") (auto simp: length_dropWhile_le less_Suc_eq_le)

text \<open>
  The shape \<open>python_version\s*OP\s*['"]?(\d+\.\d+)['"]?\<close>. The closing quote is
  optional and outside the group, so it changes neither the match nor group 1.
\<close>

definition skip_quote :: "string \<Rightarrow> string" where
  "skip_quote s =
     (case s of
        [] \<Rightarrow> []
      | c # t \<Rightarrow> if c = CHR 0x27 \<or> c = CHR 0x22 then t else c # t)"

definition major_minor_text :: "string \<Rightarrow> string option" where
  "major_minor_text s =
     (let d1 = takeWhile is_digit s in
      if d1 = [] then None
      else (case dropWhile is_digit s of
              [] \<Rightarrow> None
            | c # r \<Rightarrow>
                if c = CHR ''.'' \<and> takeWhile is_digit r \<noteq> []
                then Some (d1 @ CHR ''.'' # takeWhile is_digit r) else None))"

definition marker_pattern :: "string \<Rightarrow> pattern" where
  "marker_pattern opr s =
     (case strip_prefix ''python_version'' s of
        None \<Rightarrow> None
      | Some r1 \<Rightarrow>
          (case strip_prefix opr (dropWhile is_space r1) of
             None \<Rightarrow> None
           | Some r2 \<Rightarrow> major_minor_text (skip_quote (dropWhile is_space r2))))"

definition RE_MARKER_LT :: pattern where
  "RE_MARKER_LT = marker_pattern ''<''"

definition RE_MARKER_LE :: pattern where
  "RE_MARKER_LE = marker_pattern ''<=''"

definition RE_MARKER_GT :: pattern where
  "RE_MARKER_GT = marker_pattern ''>''"

definition RE_MARKER_GE :: pattern where
  "RE_MARKER_GE = marker_pattern ''>=''"

definition RE_MARKER_EQ :: pattern where
  "RE_MARKER_EQ = marker_pattern ''==''"

definition RE_MARKER_NE :: pattern where
  "RE_MARKER_NE = marker_pattern ''!=''"

section \<open>Data model\<close>

datatype Action = UPDATE | DELETE | NONE | CHECK_MANUALLY

record OutdatedEntry =
  package :: string
  python_version :: string
  current_version :: "string option"
  latest_version :: "string option"
  action :: Action

record DependencyInfo =
  name :: string
  raw_spec :: string
  version_constraints :: string
  python_markers :: "string option"
  extras :: "string list"
  source :: string
  is_git_dependency :: bool
  git_url :: "string option"
  git_ref :: "string option"

record PythonVersion =
  major :: int
  minor :: int


text \<open>
  Modelled from the spec: the class \<open>VersionResult\<close> of the version resolver, whose file
  is not among the sources. The resolution result has an optional latest version (the
  field \<open>latest_version\<close>, named \<open>latest\<close> here because \<open>OutdatedEntry\<close> has a field of
  that name), the flag \<open>is_unknown\<close> and an optional diagnostic; the tests construct it
  with the defaults absent, false, absent.
\<close>

record VersionResult =
  latest :: "string option"
  is_unknown :: bool
  error :: "string option"

definition VersionResult_unknown :: VersionResult where
  "VersionResult_unknown = \<lparr>latest = None, is_unknown = True, error = None\<rparr>"




text \<open>The comparison methods of \<open>PythonVersion\<close> compare the pairs (major, minor).\<close>

definition PythonVersion_cmp :: "cmp_op \<Rightarrow> PythonVersion \<Rightarrow> PythonVersion \<Rightarrow> bool" where
  "PythonVersion_cmp opr a b = tuple_compare opr [major a, minor a] [major b, minor b]"

definition PythonVersion_eq :: "PythonVersion \<Rightarrow> PythonVersion \<Rightarrow> bool" where
  "PythonVersion_eq a b = (major a = major b \<and> minor a = minor b)"

definition from_string :: "string \<Rightarrow> py_error + PythonVersion" where
  "from_string version_str =
     (case split_on CHR ''.'' (py_strip version_str) of
        p0 # p1 # _ \<Rightarrow>
          (case py_int p0 of
             Inl e \<Rightarrow> Inl e
           | Inr mj \<Rightarrow>
               (case py_int p1 of
                  Inl e \<Rightarrow> Inl e
                | Inr mn \<Rightarrow> Inr \<lparr>major = mj, minor = mn\<rparr>))
      | _ \<Rightarrow> Inl ValueError)"

section \<open>Version comparator\<close>

fun first_search :: "pattern list \<Rightarrow> string \<Rightarrow> string option" where
  "first_search [] s = None"
| "first_search (pat # pats) s =
     (case re_search pat s of Some g \<Rightarrow> Some g | None \<Rightarrow> first_search pats s)"

definition parse_version_constraint_minimum :: "string \<Rightarrow> py_error + string option" where
  "parse_version_constraint_minimum constraints =
     (if constraints = [] then Inr None
      else if take 1 constraints = ''^'' then
        (case py_first (split_on CHR '','' (drop 1 constraints)) of
           Inl e \<Rightarrow> Inl e
         | Inr f \<Rightarrow> Inr (Some (py_strip f)))
      else if take 1 constraints = ''~'' then
        (case py_first (split_on CHR '','' (drop 1 constraints)) of
           Inl e \<Rightarrow> Inl e
         | Inr f \<Rightarrow> Inr (Some (py_strip f)))
      else
        (case first_search [RE_VERSION_GE, RE_VERSION_EQ, RE_VERSION_COMPAT] constraints of
           Some g \<Rightarrow> Inr (Some g)
         | None \<Rightarrow> Inr (RE_VERSION_BARE (py_strip constraints))))"

definition version_tuple :: "string \<Rightarrow> py_error + int list" where
  "version_tuple version =
     (case py_first (split_on CHR ''-'' version) of
        Inl e \<Rightarrow> Inl e
      | Inr a \<Rightarrow>
          (case py_first (split_on CHR ''+'' a) of
             Inl e \<Rightarrow> Inl e
           | Inr b \<Rightarrow>
               (let parts = findall_digits b in
                if parts = [] then Inr [0] else traverse py_int parts)))"

definition version_is_greater :: "string \<Rightarrow> string \<Rightarrow> py_error + bool" where
  "version_is_greater v1 v2 =
     (case version_tuple v1 of
        Inl e \<Rightarrow> Inl e
      | Inr t1 \<Rightarrow>
          (case version_tuple v2 of
             Inl e \<Rightarrow> Inl e
           | Inr t2 \<Rightarrow> Inr (tuple_compare Gt t1 t2)))"

section \<open>Marker evaluator\<close>

type_synonym evaluator = "string \<Rightarrow> py_error + bool"

definition get_marker_patterns :: "PythonVersion \<Rightarrow> (pattern \<times> evaluator) list" where
  "get_marker_patterns pv =
     [(RE_MARKER_LT, \<lambda>m. map_sum id (\<lambda>v. PythonVersion_cmp Lt pv v) (from_string m)),
      (RE_MARKER_LE, \<lambda>m. map_sum id (\<lambda>v. PythonVersion_cmp Le pv v) (from_string m)),
      (RE_MARKER_GT, \<lambda>m. map_sum id (\<lambda>v. PythonVersion_cmp Gt pv v) (from_string m)),
      (RE_MARKER_GE, \<lambda>m. map_sum id (\<lambda>v. PythonVersion_cmp Ge pv v) (from_string m)),
      (RE_MARKER_EQ, \<lambda>m. map_sum id (\<lambda>v. PythonVersion_eq pv v) (from_string m)),
      (RE_MARKER_NE, \<lambda>m. map_sum id (\<lambda>v. \<not> PythonVersion_eq pv v) (from_string m))]"

text \<open>Only ValueError is caught; any other exception leaves the function.\<close>

definition try_evaluate_marker :: "pattern \<Rightarrow> evaluator \<Rightarrow> string \<Rightarrow> py_error + bool option" where
  "try_evaluate_marker pat ev marker =
     (case re_search pat marker of
        None \<Rightarrow> Inr None
      | Some g \<Rightarrow>
          (case ev g of
             Inr b \<Rightarrow> Inr (Some b)
           | Inl e \<Rightarrow> if e = ValueError then Inr None else Inl e))"

fun evaluate_patterns :: "(pattern \<times> evaluator) list \<Rightarrow> string \<Rightarrow> py_error + bool" where
  "evaluate_patterns [] marker = Inr True"
| "evaluate_patterns ((pat, ev) # rest) marker =
     (case try_evaluate_marker pat ev marker of
        Inl e \<Rightarrow> Inl e
      | Inr (Some b) \<Rightarrow> Inr b
      | Inr None \<Rightarrow> evaluate_patterns rest marker)"

definition dependency_applies_to_python_version ::
    "DependencyInfo \<Rightarrow> PythonVersion \<Rightarrow> py_error + bool" where
  "dependency_applies_to_python_version dep pv =
     (case python_markers dep of
        None \<Rightarrow> Inr True
      | Some m \<Rightarrow>
          if m = [] then Inr True
          else evaluate_patterns (get_marker_patterns pv) (py_strip m))"

section \<open>Decision engine\<close>

type_synonym decision = "Action \<times> string option \<times> string option"

text \<open>Truth value of an optional string: absent and empty are both false.\<close>

definition truthy :: "string option \<Rightarrow> bool" where
  "truthy x = (case x of None \<Rightarrow> False | Some s \<Rightarrow> s \<noteq> [])"

definition determine_git_action :: "DependencyInfo \<Rightarrow> VersionResult \<Rightarrow> py_error + decision" where
  "determine_git_action dep vr =
     (if is_unknown vr then Inr (CHECK_MANUALLY, git_ref dep, Some ''unknown'')
      else
        (case (latest vr, git_ref dep) of
           (Some l, Some c) \<Rightarrow>
             if truthy (Some l) \<and> truthy (Some c) then
               (case version_is_greater l c of
                  Inl e \<Rightarrow> Inl e
                | Inr g \<Rightarrow>
                    if g then Inr (UPDATE, git_ref dep, latest vr)
                    else Inr (CHECK_MANUALLY, git_ref dep, latest vr))
             else Inr (CHECK_MANUALLY, git_ref dep, latest vr)
         | _ \<Rightarrow> Inr (CHECK_MANUALLY, git_ref dep, latest vr)))"

definition determine_pypi_action :: "DependencyInfo \<Rightarrow> VersionResult \<Rightarrow> py_error + decision" where
  "determine_pypi_action dep vr =
     (case parse_version_constraint_minimum (version_constraints dep) of
        Inl e \<Rightarrow> Inl e
      | Inr current \<Rightarrow>
          (case (is_unknown vr, latest vr) of
             (True, _) \<Rightarrow> Inr (CHECK_MANUALLY, current, Some ''unknown'')
           | (False, None) \<Rightarrow> Inr (CHECK_MANUALLY, current, Some ''unknown'')
           | (False, Some l) \<Rightarrow>
               (case current of
                  None \<Rightarrow> Inr (NONE, None, Some l)
                | Some c \<Rightarrow>
                    (case version_is_greater l c of
                       Inl e \<Rightarrow> Inl e
                     | Inr g \<Rightarrow>
                         if g then Inr (UPDATE, Some c, Some l)
                         else Inr (NONE, Some c, Some l)))))"

definition determine_action ::
    "DependencyInfo \<Rightarrow> PythonVersion \<Rightarrow> VersionResult \<Rightarrow> py_error + decision" where
  "determine_action dep pv vr =
     (case dependency_applies_to_python_version dep pv of
        Inl e \<Rightarrow> Inl e
      | Inr applies \<Rightarrow>
          if \<not> applies then Inr (DELETE, None, None)
          else if is_git_dependency dep then determine_git_action dep vr
          else determine_pypi_action dep vr)"

section \<open>Orchestrator\<close>













subsection \<open>Construction of the analyzer\<close>

text \<open>
  A Python \<open>float\<close>: a finite value, an infinity or NaN. Every comparison with NaN is
  false.
\<close>

datatype py_float = Finite real | PosInf | NegInf | NaN

fun float_le_zero :: "py_float \<Rightarrow> bool" where
  "float_le_zero (Finite r) = (r \<le> 0)"
| "float_le_zero PosInf = False"
| "float_le_zero NegInf = True"
| "float_le_zero NaN = False"

fun float_gt_zero :: "py_float \<Rightarrow> bool" where
  "float_gt_zero (Finite r) = (0 < r)"
| "float_gt_zero PosInf = True"
| "float_gt_zero NegInf = False"
| "float_gt_zero NaN = False"

text \<open>
  Modelled from the spec: the class \<open>VersionResolver\<close>, whose file is not among the
  sources. A resolver holds its HTTP client configuration (the timeout and the optional
  credential) and a cache, empty at construction.
\<close>

record VersionResolver =
  resolver_timeout :: py_float
  resolver_github_token :: "string option"
  cache :: "string \<rightharpoonup> VersionResult"

definition VersionResolver_init :: "py_float \<Rightarrow> string option \<Rightarrow> VersionResolver" where
  "VersionResolver_init t tok =
     \<lparr>resolver_timeout = t, resolver_github_token = tok, cache = Map.empty\<rparr>"

record Analyzer =
  github_token :: "string option"
  timeout :: py_float
  concurrency :: int
  resolver :: VersionResolver

text \<open>
  The construction of an \<open>Analyzer\<close>: the dataclass stores the three fields and runs
  \<open>__post_init__\<close>, which validates them and then creates the resolver.
\<close>

definition Analyzer_init :: "string option \<Rightarrow> py_float \<Rightarrow> int \<Rightarrow> py_error + Analyzer" where
  "Analyzer_init tok t c =
     (if float_le_zero t then Inl ValueError
      else if c \<le> 0 then Inl ValueError
      else Inr \<lparr>github_token = tok, timeout = t, concurrency = c,
                resolver = VersionResolver_init t tok\<rparr>)"

section \<open>The specification's functions\<close>

text \<open>
  The functions \<open>numeric_tuple\<close>, \<open>is_greater\<close>, \<open>minimum_of\<close> and \<open>marker_applies\<close> follow
  the words of the specification. They are total and raise nothing; the theorems compare
  them with the functions of the code above.
\<close>


text \<open>
  The maximal runs of digits of a text are the non-empty pieces between its characters
  that are not digits.
\<close>

fun fields_by :: "(char \<Rightarrow> bool) \<Rightarrow> string \<Rightarrow> string list" where
  "fields_by P [] = [[]]"
| "fields_by P (c # cs) =
     (if P c then [] # fields_by P cs
      else (case fields_by P cs of [] \<Rightarrow> [[c]] | p # ps \<Rightarrow> (c # p) # ps))"

















section \<open>Example inputs\<close>

text \<open>
  The inputs of the scenarios. A marker text that ends with a quote is written with a
  space after it; \<open>strip\<close> removes the space.
\<close>

definition tomli_dep :: DependencyInfo where
  "tomli_dep =
     \<lparr>name = ''tomli'', raw_spec = ''tomli>=1.0; python_version < '3.11' '',
      version_constraints = ''>=1.0'', python_markers = Some ''python_version < '3.11' '',
      extras = [], source = ''project.dependencies'', is_git_dependency = False,
      git_url = None, git_ref = None\<rparr>"

definition py311 :: PythonVersion where
  "py311 = \<lparr>major = 3, minor = 11\<rparr>"



definition git_marker_dep :: DependencyInfo where
  "git_marker_dep =
     \<lparr>name = ''pkg'', raw_spec = ''pkg'', version_constraints = '''',
      python_markers = Some ''python_version >= '3.12' '',
      extras = [], source = ''tool.poetry.dependencies'', is_git_dependency = True,
      git_url = Some ''https://github.com/owner/pkg'', git_ref = Some ''1.0.0''\<rparr>"

definition resolved :: "string \<Rightarrow> VersionResult" where
  "resolved v = \<lparr>latest = Some v, is_unknown = False, error = None\<rparr>"








section \<open>Facts about the Python primitives\<close>

lemma split_on_nonempty: "split_on sep s \<noteq> []"
  by (induction s) (auto split: list.splits)









section \<open>The version comparator computes the numeric order\<close>







lemma fields_by_no_sep: "\<forall>c\<in>set s. \<not> P c \<Longrightarrow> fields_by P s = [s]"
  by (induction s) auto





section \<open>The marker evaluator\<close>















section \<open>The version comparator extracts the minimum in the specified order\<close>







section \<open>The decision engine\<close>

text \<open>
  Claim C1. When the marker evaluator reports that a dependency does not apply to a
  Python version, \<open>determine_action\<close> returns DELETE with both versions absent, whatever
  the resolution result holds and whether the dependency is a git or a registry
  dependency.
\<close>

theorem inapplicable_marker_deletes:
  "dependency_applies_to_python_version dep pv = Inr False
     \<Longrightarrow> determine_action dep pv vr = Inr (DELETE, None, None)"
  by (simp add: determine_action_def)

theorem inapplicable_marker_deletes_witness:
  "determine_action tomli_dep py311 (resolved ''2.0.1'') = Inr (DELETE, None, None)
   \<and> determine_action tomli_dep py311 VersionResult_unknown = Inr (DELETE, None, None)
   \<and> determine_action git_marker_dep py311 (resolved ''2.0.0'') = Inr (DELETE, None, None)"
proof -
  have h1: "dependency_applies_to_python_version tomli_dep py311 = Inr False" by code_simp
  have h2: "dependency_applies_to_python_version git_marker_dep py311 = Inr False" by code_simp
  show ?thesis
    using inapplicable_marker_deletes[OF h1, of "resolved ''2.0.1''"]
      inapplicable_marker_deletes[OF h1, of VersionResult_unknown]
      inapplicable_marker_deletes[OF h2, of "resolved ''2.0.0''"]
    by blast
qed








section \<open>The orchestrator\<close>


















text \<open>
  Claim C8. Constructing an \<open>Analyzer\<close> with a timeout that is not positive or with a
  concurrency that is not positive raises ValueError and yields no analyzer, so no
  resolution can be attempted with it; with a positive timeout and a positive
  concurrency the construction succeeds and yields the analyzer with a new resolver,
  whose cache is empty.
\<close>

theorem analyzer_configuration_checked:
  "(Analyzer_init tok t c = Inl ValueError \<longleftrightarrow> float_le_zero t \<or> c \<le> 0)
   \<and> (float_le_zero t \<or> c \<le> 0 \<longrightarrow> (\<forall>a. Analyzer_init tok t c \<noteq> Inr a))
   \<and> (float_gt_zero t \<and> 0 < c \<longrightarrow>
         Analyzer_init tok t c
           = Inr \<lparr>github_token = tok, timeout = t, concurrency = c,
                  resolver = \<lparr>resolver_timeout = t, resolver_github_token = tok,
                               cache = Map.empty\<rparr>\<rparr>)"
  by (cases t) (auto simp: Analyzer_init_def VersionResolver_init_def)

theorem analyzer_configuration_checked_witness:
  "Analyzer_init None (Finite 0) 10 = Inl ValueError
   \<and> Analyzer_init None (Finite 30) 0 = Inl ValueError
   \<and> Analyzer_init None (Finite (-1)) (-1) = Inl ValueError
   \<and> (\<exists>a. Analyzer_init None (Finite 30) 10 = Inr a \<and> cache (resolver a) = Map.empty)"
proof -
  have a: "Analyzer_init None (Finite 0) 10 = Inl ValueError"
    using analyzer_configuration_checked[of None "Finite 0" 10] by simp
  have b: "Analyzer_init None (Finite 30) 0 = Inl ValueError"
    using analyzer_configuration_checked[of None "Finite 30" 0] by simp
  have c: "Analyzer_init None (Finite (-1)) (-1) = Inl ValueError"
    using analyzer_configuration_checked[of None "Finite (-1)" "-1"] by simp
  have d: "\<exists>a. Analyzer_init None (Finite 30) 10 = Inr a \<and> cache (resolver a) = Map.empty"
    using analyzer_configuration_checked[of None "Finite 30" 10] by simp
  from a b c d show ?thesis by blast
qed

end
